theory Spec2Isabelle
  imports Complex_Main
begin

section \<open>Python values used by \<open>backend/ocr_processor.py\<close>\<close>

text \<open>
  A Python \<open>str\<close> is a sequence of Unicode code points, so it is a list of naturals
  here (a HOL \<open>char\<close> is a byte and could not hold the non-ASCII text an OCR engine
  returns). \<open>ascii\<close> reads a literal of the source. A Python \<open>float\<close> is idealised
  as a real number: rounding to decimals is exact, the final step of \<open>round\<close> to the
  nearest binary double is not part of the model.
\<close>

type_synonym pystr = "nat list"

definition ascii :: "string \<Rightarrow> pystr" where
  "ascii s = map of_char s"

definition comma :: nat where
  "comma = 44"

definition space :: nat where
  "space = 32"

text \<open>
  \<open>str.isspace\<close> for one code point: the code points CPython lists as whitespace
  (bidirectional class WS, B or S, or category Zs).
\<close>

definition isspace :: "nat \<Rightarrow> bool" where
  "isspace c \<longleftrightarrow>
     (9 \<le> c \<and> c \<le> 13) \<or> (28 \<le> c \<and> c \<le> 32) \<or> c = 133 \<or> c = 160 \<or> c = 5760 \<or>
     (8192 \<le> c \<and> c \<le> 8202) \<or> c = 8232 \<or> c = 8233 \<or> c = 8239 \<or> c = 8287 \<or> c = 12288"

text \<open>\<open>text.strip()\<close>: whitespace is dropped at the left end, then at the right end.\<close>

definition lstrip :: "pystr \<Rightarrow> pystr" where
  "lstrip s = dropWhile isspace s"

definition rstrip :: "pystr \<Rightarrow> pystr" where
  "rstrip s = rev (dropWhile isspace (rev s))"

definition strip :: "pystr \<Rightarrow> pystr" where
  "strip s = rstrip (lstrip s)"

text \<open>
  \<open>languages.split(',')\<close>: the scan keeps the piece being read in \<open>cur\<close> and the
  finished pieces in \<open>acc\<close>; every separator closes a piece, the end of the string
  closes the last one.
\<close>

fun split_loop :: "nat \<Rightarrow> pystr \<Rightarrow> pystr \<Rightarrow> pystr list \<Rightarrow> pystr list" where
  "split_loop sep [] cur acc = acc @ [cur]"
| "split_loop sep (c # cs) cur acc =
     (if c = sep then split_loop sep cs [] (acc @ [cur])
      else split_loop sep cs (cur @ [c]) acc)"

definition split :: "pystr \<Rightarrow> nat \<Rightarrow> pystr list" where
  "split s sep = split_loop sep s [] []"

text \<open>\<open>sep.join(parts)\<close>.\<close>

fun join :: "pystr \<Rightarrow> pystr list \<Rightarrow> pystr" where
  "join sep [] = []"
| "join sep [p] = p"
| "join sep (p # q # ps) = p @ sep @ join sep (q # ps)"

text \<open>
  \<open>round(x, ndigits)\<close> on a float: the value is scaled by \<open>10 ^ ndigits\<close>, rounded to
  the nearest integer with ties going to the even one, and scaled back.
\<close>

definition round_half_even :: "real \<Rightarrow> int" where
  "round_half_even y =
     (let f = \<lfloor>y\<rfloor>; d = y - of_int f
      in if d < 1 / 2 then f else if 1 / 2 < d then f + 1 else if even f then f else f + 1)"

definition py_round :: "real \<Rightarrow> nat \<Rightarrow> real" where
  "py_round x ndigits = of_int (round_half_even (x * 10 ^ ndigits)) / 10 ^ ndigits"

text \<open>
  The values the script stores in its result dictionaries, and a dictionary as the
  list of its items in insertion order (the keys of each literal are distinct).
\<close>

datatype pyval =
    PyStr pystr
  | PyInt int
  | PyFloat real
  | PyStrList "pystr list"
  | PyFloatList "real list"

type_synonym pydict = "(string \<times> pyval) list"

definition has_key :: "pydict \<Rightarrow> string \<Rightarrow> bool" where
  "has_key d k \<longleftrightarrow> k \<in> fst ` set d"

text \<open>The number a dictionary value stands for, when it is an \<open>int\<close> or a \<open>float\<close>.\<close>

fun number_of :: "pyval \<Rightarrow> real option" where
  "number_of (PyInt i) = Some (of_int i)"
| "number_of (PyFloat x) = Some x"
| "number_of _ = None"

section \<open>\<open>json.dumps\<close>\<close>

text \<open>
  The encoder of the standard library, for the values above. A string is quoted; the
  quote, the backslash and the control characters below U+0020 are always escaped.
  With \<open>ensure_ascii\<close> every code point outside \<open>' '..'~'\<close> is escaped as well
  (\<open>\uXXXX\<close>, a surrogate pair above U+FFFF); without it such a code point is written
  as it is. The text of a float (\<open>float.__repr__\<close>) is a parameter.
\<close>

definition hex_digit :: "nat \<Rightarrow> nat" where
  "hex_digit n = (if n < 10 then 48 + n else 87 + n)"

definition u_escape :: "nat \<Rightarrow> pystr" where
  "u_escape n =
     [92, 117, hex_digit (n div 4096 mod 16), hex_digit (n div 256 mod 16),
      hex_digit (n div 16 mod 16), hex_digit (n mod 16)]"

definition escape_char :: "bool \<Rightarrow> nat \<Rightarrow> pystr" where
  "escape_char ensure_ascii c =
     (if c = 34 then [92, 34]
      else if c = 92 then [92, 92]
      else if c = 10 then [92, 110]
      else if c = 13 then [92, 114]
      else if c = 9 then [92, 116]
      else if c = 8 then [92, 98]
      else if c = 12 then [92, 102]
      else if c < 32 then u_escape c
      else if ensure_ascii \<and> 126 < c then
        (if c < 65536 then u_escape c
         else u_escape (55296 + (c - 65536) div 1024 mod 1024) @
              u_escape (56320 + (c - 65536) mod 1024))
      else [c])"

definition dumps_str :: "bool \<Rightarrow> pystr \<Rightarrow> pystr" where
  "dumps_str ensure_ascii s = [34] @ concat (map (escape_char ensure_ascii) s) @ [34]"

function digits :: "nat \<Rightarrow> pystr" where
  "digits n = (if n < 10 then [48 + n] else digits (n div 10) @ [48 + n mod 10])"
  by pat_completeness auto
termination
  by (relation "measure id") auto

declare digits.simps [simp del]

definition dumps_int :: "int \<Rightarrow> pystr" where
  "dumps_int i = (if i < 0 then 45 # digits (nat (- i)) else digits (nat i))"

definition dumps_list :: "pystr list \<Rightarrow> pystr" where
  "dumps_list items = [91] @ join [44, 32] items @ [93]"

fun dumps_val :: "(real \<Rightarrow> pystr) \<Rightarrow> bool \<Rightarrow> pyval \<Rightarrow> pystr" where
  "dumps_val float_repr ensure_ascii (PyStr s) = dumps_str ensure_ascii s"
| "dumps_val float_repr ensure_ascii (PyInt i) = dumps_int i"
| "dumps_val float_repr ensure_ascii (PyFloat x) = float_repr x"
| "dumps_val float_repr ensure_ascii (PyStrList ss) =
     dumps_list (map (dumps_str ensure_ascii) ss)"
| "dumps_val float_repr ensure_ascii (PyFloatList xs) = dumps_list (map float_repr xs)"

definition dumps_item :: "(real \<Rightarrow> pystr) \<Rightarrow> bool \<Rightarrow> string \<times> pyval \<Rightarrow> pystr" where
  "dumps_item float_repr ensure_ascii kv =
     dumps_str ensure_ascii (ascii (fst kv)) @ [58, 32] @
     dumps_val float_repr ensure_ascii (snd kv)"

definition dumps :: "(real \<Rightarrow> pystr) \<Rightarrow> bool \<Rightarrow> pydict \<Rightarrow> pystr" where
  "dumps float_repr ensure_ascii d =
     [123] @ join [44, 32] (map (dumps_item float_repr ensure_ascii) d) @ [125]"

section \<open>The environment of the script\<close>

text \<open>
  The code points of a text that are not ASCII, and the strings a dictionary holds
  as values, in the order of its items.
\<close>

definition non_ascii :: "pystr \<Rightarrow> pystr" where
  "non_ascii s = filter (\<lambda>c. 127 < c) s"

fun strings_of :: "pyval \<Rightarrow> pystr list" where
  "strings_of (PyStr s) = [s]"
| "strings_of (PyStrList ss) = ss"
| "strings_of _ = []"

definition dict_strings :: "pydict \<Rightarrow> pystr list" where
  "dict_strings d = concat (map (\<lambda>kv. strings_of (snd kv)) d)"

text \<open>
  An exception is an instance of \<open>Exception\<close>, with its \<open>str(e)\<close>, or it is outside
  that class and ends the process when nothing catches it: \<open>SystemExit\<close> with the
  exit status it carries (\<open>KeyboardInterrupt\<close> behaves alike, with the status the
  platform gives an interrupt).
\<close>

datatype exn = Exception pystr | SystemExit nat

text \<open>
  What the script does to the outside, in order: the progress lines it prints (one
  constructor for each \<open>print\<close> of \<open>process_image_ocr\<close>, with the values put into
  the line), the calls of the engine, and \<open>print(json.dumps(d, ensure_ascii=b))\<close>.
\<close>

datatype progress =
    Starting pystr
  | Initializing "pystr list"
  | Reader_initialized
  | Processing_image
  | Completed nat
  | Text_line nat pystr real
  | Total_time real
  | Error_line pystr

datatype event =
    Print progress
  | Call_Reader "pystr list" bool
  | Call_readtext pystr
  | Print_json bool pydict

text \<open>
  The OCR engine, the clock and the standard output are outside the script.
  \<open>easyocr_Reader\<close> is the constructor call \<open>easyocr.Reader(lang_list, gpu=False)\<close>
  and \<open>reader_readtext\<close> is \<open>reader.readtext(image_path)\<close>; each either raises
  (\<open>Inl\<close>) or returns (\<open>Inr\<close>). A detection is the triple
  \<open>(bbox, text, confidence)\<close>, the bounding box being opaque. \<open>time_first\<close> and
  \<open>time_second\<close> are the values of the two calls of \<open>time.time()\<close>, in the order they
  are made. \<open>encode_error\<close> says which lines standard output cannot encode: the
  \<open>str(e)\<close> of the \<open>UnicodeEncodeError\<close> that \<open>print\<close> raises on the line.
\<close>

type_synonym 'b detection = "'b \<times> pystr \<times> real"

record ('r, 'b) env =
  easyocr_Reader :: "pystr list \<Rightarrow> bool \<Rightarrow> exn + 'r"
  reader_readtext :: "'r \<Rightarrow> pystr \<Rightarrow> exn + 'b detection list"
  time_first :: real
  time_second :: real
  encode_error :: "event \<Rightarrow> pystr option"

text \<open>
  The strings of the input and of the engine that a printed line holds; the rest of
  every line is a constant ASCII text, digits and floats, and with \<open>ensure_ascii\<close>
  the JSON text is all ASCII. A line without a code point outside ASCII can be
  encoded for every standard output, so \<open>print\<close> raises only on a line that has
  one and that the environment rejects.
\<close>

fun strings_in :: "event \<Rightarrow> pystr list" where
  "strings_in (Print (Starting image_path)) = [image_path]"
| "strings_in (Print (Initializing lang_list)) = lang_list"
| "strings_in (Print (Text_line i text confidence)) = [text]"
| "strings_in (Print (Error_line e)) = [e]"
| "strings_in (Print_json ensure_ascii d) = (if ensure_ascii then [] else dict_strings d)"
| "strings_in _ = []"

definition print_error :: "('r, 'b) env \<Rightarrow> event \<Rightarrow> pystr option" where
  "print_error env ev =
     (if non_ascii (concat (strings_in ev)) = [] then None else encode_error env ev)"

section \<open>\<open>process_image_ocr\<close>\<close>

text \<open>
  A run gives what was done to the outside and how it ended: with an exception
  (\<open>Inl\<close>) or with a value (\<open>Inr\<close>).

  The loop \<open>for i, (bbox, text, confidence) in enumerate(results)\<close>: \<open>i\<close> counts from
  the value it is started with, the state is the output so far and the two lists the
  body appends to. The \<open>print\<close> of the body may raise, which ends the loop.
\<close>

fun for_results ::
  "('r, 'b) env \<Rightarrow> 'b detection list \<Rightarrow> nat \<Rightarrow> event list \<times> pystr list \<times> real list \<Rightarrow>
   event list \<times> (exn + pystr list \<times> real list)" where
  "for_results env [] i (out, extracted_texts, confidence_scores) =
     (out, Inr (extracted_texts, confidence_scores))"
| "for_results env ((bbox, text, confidence) # rest) i (out, extracted_texts, confidence_scores) =
     (case print_error env (Print (Text_line (i + 1) text confidence)) of
        Some e \<Rightarrow> (out, Inl (Exception e))
      | None \<Rightarrow>
          for_results env rest (i + 1)
            (out @ [Print (Text_line (i + 1) text confidence)],
             extracted_texts @ [strip text],
             confidence_scores @ [py_round confidence 3]))"

text \<open>The body of the \<open>try\<close>, statement by statement.\<close>

definition try_body ::
  "('r, 'b) env \<Rightarrow> pystr \<Rightarrow> pystr \<Rightarrow> event list \<times> (exn + pydict)" where
  "try_body env image_path languages =
     (case print_error env (Print (Starting image_path)) of
        Some e \<Rightarrow> ([], Inl (Exception e))
      | None \<Rightarrow>
     (let out0 = [Print (Starting image_path)];
          start_time = time_first env;
          lang_list = split languages comma
      in case print_error env (Print (Initializing lang_list)) of
           Some e \<Rightarrow> (out0, Inl (Exception e))
         | None \<Rightarrow>
     (let out1 = out0 @ [Print (Initializing lang_list), Call_Reader lang_list False]
      in case easyocr_Reader env lang_list False of
           Inl e \<Rightarrow> (out1, Inl e)
         | Inr reader \<Rightarrow>
     (case print_error env (Print Reader_initialized) of
        Some e \<Rightarrow> (out1, Inl (Exception e))
      | None \<Rightarrow>
     (let out2 = out1 @ [Print Reader_initialized]
      in case print_error env (Print Processing_image) of
           Some e \<Rightarrow> (out2, Inl (Exception e))
         | None \<Rightarrow>
     (let out3 = out2 @ [Print Processing_image, Call_readtext image_path]
      in case reader_readtext env reader image_path of
           Inl e \<Rightarrow> (out3, Inl e)
         | Inr results \<Rightarrow>
     (case print_error env (Print (Completed (length results))) of
        Some e \<Rightarrow> (out3, Inl (Exception e))
      | None \<Rightarrow>
     (case for_results env results 0 (out3 @ [Print (Completed (length results))], [], []) of
        (out4, Inl e) \<Rightarrow> (out4, Inl e)
      | (out4, Inr (extracted_texts, confidence_scores)) \<Rightarrow>
     (let processing_time = py_round (time_second env - start_time) 2
      in case print_error env (Print (Total_time processing_time)) of
           Some e \<Rightarrow> (out4, Inl (Exception e))
         | None \<Rightarrow>
     (let full_text = join [space] extracted_texts
      in (out4 @ [Print (Total_time processing_time)],
          Inr [(''text_extracted'', PyStr full_text),
               (''individual_texts'', PyStrList extracted_texts),
               (''confidence_scores'', PyFloatList confidence_scores),
               (''processing_time'', PyFloat processing_time),
               (''total_detections'', PyInt (int (length results)))])))))))))))"

text \<open>
  The handler \<open>except Exception as e\<close>. Its \<open>print\<close> is not inside any \<open>try\<close>: when
  it raises, that exception leaves \<open>process_image_ocr\<close>.
\<close>

definition except_Exception ::
  "('r, 'b) env \<Rightarrow> event list \<Rightarrow> pystr \<Rightarrow> event list \<times> (exn + pydict)" where
  "except_Exception env out e =
     (case print_error env (Print (Error_line e)) of
        Some e' \<Rightarrow> (out, Inl (Exception e'))
      | None \<Rightarrow>
          (out @ [Print (Error_line e)],
           Inr [(''error'', PyStr e),
                (''text_extracted'', PyStr []),
                (''confidence_scores'', PyFloatList []),
                (''processing_time'', PyInt 0)]))"

text \<open>
  \<open>try: ... except Exception as e: ...\<close>: the handler takes the instances of
  \<open>Exception\<close>, anything else goes on to the caller.
\<close>

definition process_image_ocr ::
  "('r, 'b) env \<Rightarrow> pystr \<Rightarrow> pystr \<Rightarrow> event list \<times> (exn + pydict)" where
  "process_image_ocr env image_path languages =
     (case try_body env image_path languages of
        (out, Inr result) \<Rightarrow> (out, Inr result)
      | (out, Inl (Exception e)) \<Rightarrow> except_Exception env out e
      | (out, Inl (SystemExit status)) \<Rightarrow> (out, Inl (SystemExit status)))"

section \<open>\<open>main\<close>\<close>

text \<open>
  \<open>argv\<close> is \<open>sys.argv\<close>: the name of the script, then the positional arguments.
  The result is what was done and the exit status of the process: 1 from
  \<open>sys.exit(1)\<close>, 0 when \<open>main\<close> returns, and when an exception leaves \<open>main\<close>,
  1 for an instance of \<open>Exception\<close> (the interpreter writes the traceback to
  standard error) and the status of a \<open>SystemExit\<close>.
\<close>

definition usage_error :: pydict where
  "usage_error =
     [(''error'',
       PyStr (ascii ''Missing arguments. Usage: python ocr_processor.py <image_path> <languages>''))]"

definition main :: "('r, 'b) env \<Rightarrow> pystr list \<Rightarrow> event list \<times> nat" where
  "main env argv =
     (if length argv < 3 then
        (case print_error env (Print_json True usage_error) of
           Some e \<Rightarrow> ([], 1)
         | None \<Rightarrow> ([Print_json True usage_error], 1))
      else
        (let image_path = argv ! 1;
             languages = argv ! 2
         in case process_image_ocr env image_path languages of
              (out, Inl (Exception e)) \<Rightarrow> (out, 1)
            | (out, Inl (SystemExit status)) \<Rightarrow> (out, status)
            | (out, Inr result) \<Rightarrow>
                (case print_error env (Print_json False result) of
                   Some e \<Rightarrow> (out, 1)
                 | None \<Rightarrow> (out @ [Print_json False result], 0))))"

text \<open>The positional arguments, the engine calls and the JSON lines of a run.\<close>

definition positional :: "pystr list \<Rightarrow> pystr list" where
  "positional argv = tl argv"

fun is_engine_call :: "event \<Rightarrow> bool" where
  "is_engine_call (Call_Reader ls gpu) = True"
| "is_engine_call (Call_readtext p) = True"
| "is_engine_call _ = False"

fun json_of :: "event \<Rightarrow> (bool \<times> pydict) option" where
  "json_of (Print_json b d) = Some (b, d)"
| "json_of _ = None"

definition json_records :: "event list \<Rightarrow> (bool \<times> pydict) list" where
  "json_records out = List.map_filter json_of out"

text \<open>The progress lines the loop prints for a sequence of detections, counted from \<open>i\<close>.\<close>

fun text_lines :: "nat \<Rightarrow> 'b detection list \<Rightarrow> event list" where
  "text_lines i [] = []"
| "text_lines i ((bbox, text, confidence) # rest) =
     Print (Text_line (i + 1) text confidence) # text_lines (i + 1) rest"





text \<open>The number stored under \<open>processing_time\<close>, if there is one.\<close>

definition processing_time_of :: "pydict \<Rightarrow> real option" where
  "processing_time_of d =
     (case map_of d ''processing_time'' of Some v \<Rightarrow> number_of v | None \<Rightarrow> None)"

section \<open>Sample environments\<close>

text \<open>
  An engine that finds two regions (one with surrounding blanks and an accented
  letter), one that finds nothing, one whose constructor rejects the languages, one
  that cannot open the image, and a run during which the system clock is set back;
  in all of these standard output encodes every line. Then an engine whose error
  message has an accented letter before a standard output that cannot encode it, an
  engine that calls \<open>sys.exit(3)\<close>, and a standard output that rejects the lone
  surrogate of an image path.
\<close>

definition two_regions :: "unit detection list" where
  "two_regions = [((), [32, 72, 233, 32, 32], 98765 / 100000), ((), ascii ''you'', 1 / 16)]"

definition sample_env :: "(unit, unit) env" where
  "sample_env =
     \<lparr>easyocr_Reader = (\<lambda>ls gpu. Inr ()),
      reader_readtext = (\<lambda>r p. Inr two_regions),
      time_first = 10, time_second = 25 / 2,
      encode_error = (\<lambda>ev. None)\<rparr>"

definition blank_image_env :: "(unit, unit) env" where
  "blank_image_env =
     \<lparr>easyocr_Reader = (\<lambda>ls gpu. Inr ()),
      reader_readtext = (\<lambda>r p. Inr []),
      time_first = 10, time_second = 11,
      encode_error = (\<lambda>ev. None)\<rparr>"

definition bad_language_env :: "(unit, unit) env" where
  "bad_language_env =
     \<lparr>easyocr_Reader = (\<lambda>ls gpu. Inl (Exception (ascii ''unsupported language''))),
      reader_readtext = (\<lambda>r p. Inr []),
      time_first = 10, time_second = 11,
      encode_error = (\<lambda>ev. None)\<rparr>"

definition missing_file_env :: "(unit, unit) env" where
  "missing_file_env =
     \<lparr>easyocr_Reader = (\<lambda>ls gpu. Inr ()),
      reader_readtext = (\<lambda>r p. Inl (Exception (ascii ''no such file''))),
      time_first = 10, time_second = 11,
      encode_error = (\<lambda>ev. None)\<rparr>"

definition clock_set_back_env :: "(unit, unit) env" where
  "clock_set_back_env =
     \<lparr>easyocr_Reader = (\<lambda>ls gpu. Inr ()),
      reader_readtext = (\<lambda>r p. Inr []),
      time_first = 10, time_second = 5,
      encode_error = (\<lambda>ev. None)\<rparr>"



definition engine_exits_env :: "(unit, unit) env" where
  "engine_exits_env =
     \<lparr>easyocr_Reader = (\<lambda>ls gpu. Inl (SystemExit 3)),
      reader_readtext = (\<lambda>r p. Inr []),
      time_first = 10, time_second = 11,
      encode_error = (\<lambda>ev. None)\<rparr>"


definition sample_argv :: "pystr list" where
  "sample_argv = [ascii ''ocr_processor.py'', ascii ''a.png'', ascii ''en,fr'']"

section \<open>Rounding\<close>

lemma round_half_even_mono_int:
  "of_int m \<le> y \<Longrightarrow> m \<le> round_half_even y"
  unfolding round_half_even_def Let_def by (auto simp: le_floor_iff; linarith)

lemma round_half_even_le_int:
  "y \<le> of_int m \<Longrightarrow> round_half_even y \<le> m"
  unfolding round_half_even_def Let_def
  by (auto; linarith)

lemma py_round_nonneg: "0 \<le> x \<Longrightarrow> 0 \<le> py_round x n"
  unfolding py_round_def using round_half_even_mono_int[of 0 "x * 10 ^ n"] by simp

lemma py_round_le_one: "x \<le> 1 \<Longrightarrow> py_round x n \<le> 1"
proof -
  assume "x \<le> 1"
  then have "x * 10 ^ n \<le> of_int (10 ^ n)" by simp
  then have "round_half_even (x * 10 ^ n) \<le> 10 ^ n" by (rule round_half_even_le_int)
  then have "(of_int (round_half_even (x * 10 ^ n)) :: real) \<le> of_int (10 ^ n)"
    by (simp only: of_int_le_iff)
  then show ?thesis unfolding py_round_def by (simp add: divide_le_eq)
qed

lemma py_round_decimal: "\<exists>k::int. py_round x n = of_int k / 10 ^ n"
  unfolding py_round_def by blast

lemma py_round_close: "\<bar>py_round x n - x\<bar> \<le> 1 / (2 * 10 ^ n)"
proof -
  define y where "y = x * 10 ^ n"
  define r :: real where "r = of_int (round_half_even y)"
  have b: "r \<le> y + 1 / 2 \<and> y - 1 / 2 \<le> r"
    unfolding r_def round_half_even_def Let_def by (auto; linarith)
  then have a: "\<bar>r - y\<bar> \<le> 1 / 2" by linarith
  have p: "(0::real) \<le> 10 ^ n" by simp
  have "\<bar>r - y\<bar> / 10 ^ n \<le> (1 / 2) / 10 ^ n"
    using a p by (rule divide_right_mono)
  moreover have "py_round x n - x = (r - y) / 10 ^ n"
    unfolding py_round_def y_def r_def by (simp add: diff_divide_distrib)
  moreover have "\<bar>(r - y) / 10 ^ n\<bar> = \<bar>r - y\<bar> / 10 ^ n"
    by simp
  ultimately show ?thesis by simp
qed

section \<open>Splitting and joining\<close>

lemma split_loop_ne: "split_loop sep s cur acc \<noteq> []"
  by (induction s arbitrary: cur acc) auto

lemma split_loop_acc: "split_loop sep s cur acc = acc @ split_loop sep s cur []"
proof (induction s arbitrary: cur acc)
  case Nil show ?case by simp
next
  case (Cons c cs)
  show ?case using Cons.IH[of "[]" "acc @ [cur]"] Cons.IH[of "[]" "[cur]"] Cons.IH[of "cur @ [c]" acc]
    by simp
qed

lemma split_loop_cur:
  "split_loop sep s cur [] = (cur @ hd (split_loop sep s [] [])) # tl (split_loop sep s [] [])"
proof (induction s arbitrary: cur)
  case Nil show ?case by simp
next
  case (Cons c cs)
  show ?case
  proof (cases "c = sep")
    case True
    then show ?thesis using split_loop_acc[of sep cs "[]" "[cur]"] split_loop_acc[of sep cs "[]" "[[]]"] by simp
  next
    case False
    then show ?thesis using Cons.IH[of "cur @ [c]"] Cons.IH[of "[c]"] by simp
  qed
qed

lemma split_Nil: "split [] sep = [[]]"
  by (simp add: split_def)

lemma split_Cons:
  "split (c # cs) sep =
     (if c = sep then [] # split cs sep else (c # hd (split cs sep)) # tl (split cs sep))"
  unfolding split_def
  using split_loop_acc[of sep cs "[]" "[[]]"] split_loop_cur[of sep cs "[c]"] by simp

lemma split_ne: "split s sep \<noteq> []"
  by (simp add: split_def split_loop_ne)




lemma split_no_sep: "p \<in> set (split s sep) \<Longrightarrow> sep \<notin> set p"
proof (induction s arbitrary: p)
  case Nil then show ?case by (simp add: split_Nil)
next
  case (Cons c s)
  obtain q qs where e: "split s sep = q # qs" using split_ne[of s sep] by (cases "split s sep") auto
  show ?case using Cons e by (auto simp: split_Cons split: if_splits)
qed


section \<open>Non-ASCII code points in the encoder\<close>

lemma non_ascii_Nil: "non_ascii [] = []"
  by (simp add: non_ascii_def)



















section \<open>Printing and the loop\<close>

lemma print_error_constant:
  "print_error env (Print Reader_initialized) = None"
  "print_error env (Print Processing_image) = None"
  "print_error env (Print (Completed n)) = None"
  "print_error env (Print (Total_time p)) = None"
  "print_error env (Print_json True d) = None"
  by (simp_all add: print_error_def non_ascii_Nil)

lemma print_error_ascii:
  "non_ascii (concat (strings_in ev)) = [] \<Longrightarrow> print_error env ev = None"
  by (simp add: print_error_def)

lemma for_results_ok:
  "\<forall>ev \<in> set (text_lines i rs). print_error env ev = None \<Longrightarrow>
   for_results env rs i (out, ts, cs) =
     (out @ text_lines i rs,
      Inr (ts @ map (\<lambda>d. strip (fst (snd d))) rs, cs @ map (\<lambda>d. py_round (snd (snd d)) 3) rs))"
proof (induction rs arbitrary: i out ts cs)
  case Nil
  show ?case by simp
next
  case (Cons d rs)
  obtain bbox tx conf where d: "d = (bbox, tx, conf)" by (cases d)
  have here: "print_error env (Print (Text_line (i + 1) tx conf)) = None"
    and rest: "\<forall>ev \<in> set (text_lines (i + 1) rs). print_error env ev = None"
    using Cons.prems unfolding d by simp_all
  show ?case
    unfolding d using here Cons.IH[OF rest] by simp
qed

lemma for_results_Inr:
  "for_results env rs i (out, ts, cs) = (out', Inr (ts', cs')) \<Longrightarrow>
   out' = out @ text_lines i rs \<and>
   ts' = ts @ map (\<lambda>d. strip (fst (snd d))) rs \<and>
   cs' = cs @ map (\<lambda>d. py_round (snd (snd d)) 3) rs \<and>
   (\<forall>ev \<in> set (text_lines i rs). print_error env ev = None)"
proof (induction rs arbitrary: i out ts cs)
  case Nil
  then show ?case by simp
next
  case (Cons d rs)
  obtain bbox tx conf where d: "d = (bbox, tx, conf)" by (cases d)
  show ?case
  proof (cases "print_error env (Print (Text_line (i + 1) tx conf))")
    case None
    then have "for_results env rs (i + 1)
        (out @ [Print (Text_line (i + 1) tx conf)], ts @ [strip tx],
         cs @ [py_round conf 3]) = (out', Inr (ts', cs'))"
      using Cons.prems unfolding d by simp
    from Cons.IH[OF this] None show ?thesis unfolding d by simp
  next
    case (Some e)
    then show ?thesis using Cons.prems unfolding d by simp
  qed
qed

lemma for_results_Inl:
  "for_results env rs i (out, ts, cs) = (out', Inl x) \<Longrightarrow>
   (\<exists>e. x = Exception e) \<and> (\<exists>n. out' = out @ take n (text_lines i rs))"
proof (induction rs arbitrary: i out ts cs)
  case Nil
  then show ?case by simp
next
  case (Cons d rs)
  obtain bbox tx conf where d: "d = (bbox, tx, conf)" by (cases d)
  show ?case
  proof (cases "print_error env (Print (Text_line (i + 1) tx conf))")
    case None
    then have "for_results env rs (i + 1)
        (out @ [Print (Text_line (i + 1) tx conf)], ts @ [strip tx],
         cs @ [py_round conf 3]) = (out', Inl x)"
      using Cons.prems unfolding d by simp
    from Cons.IH[OF this] obtain e n where x: "x = Exception e"
      and o: "out' = (out @ [Print (Text_line (i + 1) tx conf)]) @
          take n (text_lines (i + 1) rs)"
      by blast
    have "out' = out @ take (Suc n) (text_lines i (d # rs))"
      unfolding o d by simp
    with x show ?thesis by blast
  next
    case (Some e)
    then have "x = Exception e" "out' = out @ take 0 (text_lines i (d # rs))"
      using Cons.prems unfolding d by simp_all
    then show ?thesis by blast
  qed
qed

lemma json_of_text_lines: "ev \<in> set (text_lines i rs) \<Longrightarrow> json_of ev = None \<and> \<not> is_engine_call ev"
  by (induction i rs rule: text_lines.induct) auto

section \<open>The paths through the \<open>try\<close> body\<close>

lemma try_body_cases:
  fixes env :: "('r, 'b) env"
  obtains
    (start_raises) e where
      "print_error env (Print (Starting image_path)) = Some e"
      "try_body env image_path languages = ([], Inl (Exception e))"
  | (init_raises) e where
      "print_error env (Print (Starting image_path)) = None"
      "print_error env (Print (Initializing (split languages comma))) = Some e"
      "try_body env image_path languages = ([Print (Starting image_path)], Inl (Exception e))"
  | (Reader_raises) x where
      "print_error env (Print (Starting image_path)) = None"
      "print_error env (Print (Initializing (split languages comma))) = None"
      "easyocr_Reader env (split languages comma) False = Inl x"
      "try_body env image_path languages =
         ([Print (Starting image_path), Print (Initializing (split languages comma)),
           Call_Reader (split languages comma) False], Inl x)"
  | (readtext_raises) reader x where
      "print_error env (Print (Starting image_path)) = None"
      "print_error env (Print (Initializing (split languages comma))) = None"
      "easyocr_Reader env (split languages comma) False = Inr reader"
      "reader_readtext env reader image_path = Inl x"
      "try_body env image_path languages =
         ([Print (Starting image_path), Print (Initializing (split languages comma)),
           Call_Reader (split languages comma) False, Print Reader_initialized,
           Print Processing_image, Call_readtext image_path], Inl x)"
  | (loop_raises) reader results e n where
      "print_error env (Print (Starting image_path)) = None"
      "print_error env (Print (Initializing (split languages comma))) = None"
      "easyocr_Reader env (split languages comma) False = Inr reader"
      "reader_readtext env reader image_path = Inr results"
      "\<not> (\<forall>ev \<in> set (text_lines 0 results). print_error env ev = None)"
      "try_body env image_path languages =
         ([Print (Starting image_path), Print (Initializing (split languages comma)),
           Call_Reader (split languages comma) False, Print Reader_initialized,
           Print Processing_image, Call_readtext image_path,
           Print (Completed (length results))] @ take n (text_lines 0 results),
          Inl (Exception e))"
  | (returns) reader results where
      "print_error env (Print (Starting image_path)) = None"
      "print_error env (Print (Initializing (split languages comma))) = None"
      "easyocr_Reader env (split languages comma) False = Inr reader"
      "reader_readtext env reader image_path = Inr results"
      "\<forall>ev \<in> set (text_lines 0 results). print_error env ev = None"
      "try_body env image_path languages =
         ([Print (Starting image_path), Print (Initializing (split languages comma)),
           Call_Reader (split languages comma) False, Print Reader_initialized,
           Print Processing_image, Call_readtext image_path,
           Print (Completed (length results))] @ text_lines 0 results @
          [Print (Total_time (py_round (time_second env - time_first env) 2))],
          Inr [(''text_extracted'', PyStr (join [space] (map (\<lambda>d. strip (fst (snd d))) results))),
               (''individual_texts'', PyStrList (map (\<lambda>d. strip (fst (snd d))) results)),
               (''confidence_scores'', PyFloatList (map (\<lambda>d. py_round (snd (snd d)) 3) results)),
               (''processing_time'', PyFloat (py_round (time_second env - time_first env) 2)),
               (''total_detections'', PyInt (int (length results)))])"
proof (cases "print_error env (Print (Starting image_path))")
  case (Some e)
  then have "try_body env image_path languages = ([], Inl (Exception e))"
    by (simp add: try_body_def)
  with Some show ?thesis by (rule start_raises)
next
  case p1: None
  show ?thesis
  proof (cases "print_error env (Print (Initializing (split languages comma)))")
    case (Some e)
    then have "try_body env image_path languages =
        ([Print (Starting image_path)], Inl (Exception e))"
      using p1 by (simp add: try_body_def Let_def)
    with p1 Some show ?thesis by (rule init_raises)
  next
    case p2: None
    show ?thesis
    proof (cases "easyocr_Reader env (split languages comma) False")
      case (Inl x)
      then have "try_body env image_path languages =
         ([Print (Starting image_path), Print (Initializing (split languages comma)),
           Call_Reader (split languages comma) False], Inl x)"
        using p1 p2 by (simp add: try_body_def Let_def)
      with p1 p2 Inl show ?thesis by (rule Reader_raises)
    next
      case r: (Inr reader)
      show ?thesis
      proof (cases "reader_readtext env reader image_path")
        case (Inl x)
        then have "try_body env image_path languages =
         ([Print (Starting image_path), Print (Initializing (split languages comma)),
           Call_Reader (split languages comma) False, Print Reader_initialized,
           Print Processing_image, Call_readtext image_path], Inl x)"
          using p1 p2 r by (simp add: try_body_def Let_def print_error_constant)
        with p1 p2 r Inl show ?thesis by (rule readtext_raises)
      next
        case t: (Inr results)
        define out3 where "out3 = [Print (Starting image_path),
           Print (Initializing (split languages comma)),
           Call_Reader (split languages comma) False, Print Reader_initialized,
           Print Processing_image, Call_readtext image_path,
           Print (Completed (length results))]"
        have b: "try_body env image_path languages =
          (case for_results env results 0 (out3, [], []) of
             (out4, Inl e) \<Rightarrow> (out4, Inl e)
           | (out4, Inr (extracted_texts, confidence_scores)) \<Rightarrow>
               (out4 @ [Print (Total_time (py_round (time_second env - time_first env) 2))],
                Inr [(''text_extracted'', PyStr (join [space] extracted_texts)),
                     (''individual_texts'', PyStrList extracted_texts),
                     (''confidence_scores'', PyFloatList confidence_scores),
                     (''processing_time'', PyFloat (py_round (time_second env - time_first env) 2)),
                     (''total_detections'', PyInt (int (length results)))]))"
          using p1 p2 r t unfolding out3_def
          by (simp add: try_body_def Let_def print_error_constant)
        show ?thesis
        proof (cases "\<forall>ev \<in> set (text_lines 0 results). print_error env ev = None")
          case True
          have "try_body env image_path languages =
            (out3 @ text_lines 0 results @
             [Print (Total_time (py_round (time_second env - time_first env) 2))],
             Inr [(''text_extracted'', PyStr (join [space] (map (\<lambda>d. strip (fst (snd d))) results))),
               (''individual_texts'', PyStrList (map (\<lambda>d. strip (fst (snd d))) results)),
               (''confidence_scores'', PyFloatList (map (\<lambda>d. py_round (snd (snd d)) 3) results)),
               (''processing_time'', PyFloat (py_round (time_second env - time_first env) 2)),
               (''total_detections'', PyInt (int (length results)))])"
            unfolding b for_results_ok[OF True] by simp
          with p1 p2 r t True show ?thesis unfolding out3_def by (rule returns)
        next
          case False
          obtain out4 res where f: "for_results env results 0 (out3, [], []) = (out4, res)"
            by (cases "for_results env results 0 (out3, [], [])")
          show ?thesis
          proof (cases res)
            case (Inl x)
            from for_results_Inl[OF f[unfolded Inl]] obtain e n
              where x: "x = Exception e" and o: "out4 = out3 @ take n (text_lines 0 results)"
              by blast
            have "try_body env image_path languages =
              (out3 @ take n (text_lines 0 results), Inl (Exception e))"
              unfolding b f Inl x o by simp
            with p1 p2 r t False show ?thesis unfolding out3_def by (rule loop_raises)
          next
            case (Inr v)
            obtain ts cs where v: "v = (ts, cs)" by (cases v)
            from for_results_Inr[OF f[unfolded Inr v]] False show ?thesis by blast
          qed
        qed
      qed
    qed
  qed
qed

section \<open>The paths through \<open>process_image_ocr\<close>\<close>

lemma json_records_simps:
  "json_records [] = []"
  "json_records (Print p # out) = json_records out"
  "json_records (Call_Reader ls gpu # out) = json_records out"
  "json_records (Call_readtext path # out) = json_records out"
  "json_records (Print_json b d # out) = (b, d) # json_records out"
  by (simp_all add: json_records_def)

lemma json_records_append: "json_records (a @ b) = json_records a @ json_records b"
  by (simp add: json_records_def List.map_filter_def)

lemma json_records_text_lines: "json_records (take n (text_lines i rs)) = []"
proof -
  have "\<forall>ev \<in> set (take n (text_lines i rs)). json_of ev = None"
    using json_of_text_lines[of _ i rs] by (auto dest: in_set_takeD)
  then show ?thesis
    by (simp add: json_records_def List.map_filter_def filter_empty_conv)
qed

lemma json_records_all_text_lines: "json_records (text_lines i rs) = []"
  using json_records_text_lines[of "length (text_lines i rs)" i rs] by simp

lemma except_Exception_cases:
  fixes env :: "('r, 'b) env"
  obtains
    (printed) "print_error env (Print (Error_line e)) = None"
      "except_Exception env out e =
         (out @ [Print (Error_line e)],
          Inr [(''error'', PyStr e), (''text_extracted'', PyStr []),
               (''confidence_scores'', PyFloatList []), (''processing_time'', PyInt 0)])"
  | (raises) e' where "print_error env (Print (Error_line e)) = Some e'"
      "except_Exception env out e = (out, Inl (Exception e'))"
  by (cases "print_error env (Print (Error_line e))") (simp_all add: except_Exception_def)

lemma process_image_ocr_returns:
  assumes "print_error env (Print (Starting image_path)) = None"
    and "print_error env (Print (Initializing (split languages comma))) = None"
    and "easyocr_Reader env (split languages comma) False = Inr reader"
    and "reader_readtext env reader image_path = Inr results"
    and "\<forall>ev \<in> set (text_lines 0 results). print_error env ev = None"
  shows "process_image_ocr env image_path languages =
     ([Print (Starting image_path), Print (Initializing (split languages comma)),
       Call_Reader (split languages comma) False, Print Reader_initialized,
       Print Processing_image, Call_readtext image_path,
       Print (Completed (length results))] @ text_lines 0 results @
      [Print (Total_time (py_round (time_second env - time_first env) 2))],
      Inr [(''text_extracted'', PyStr (join [space] (map (\<lambda>d. strip (fst (snd d))) results))),
           (''individual_texts'', PyStrList (map (\<lambda>d. strip (fst (snd d))) results)),
           (''confidence_scores'', PyFloatList (map (\<lambda>d. py_round (snd (snd d)) 3) results)),
           (''processing_time'', PyFloat (py_round (time_second env - time_first env) 2)),
           (''total_detections'', PyInt (int (length results)))])"
proof (rule try_body_cases[of env image_path languages])
  fix reader' results'
  assume "easyocr_Reader env (split languages comma) False = Inr reader'"
    and "reader_readtext env reader' image_path = Inr results'"
    and b: "try_body env image_path languages =
         ([Print (Starting image_path), Print (Initializing (split languages comma)),
           Call_Reader (split languages comma) False, Print Reader_initialized,
           Print Processing_image, Call_readtext image_path,
           Print (Completed (length results'))] @ text_lines 0 results' @
          [Print (Total_time (py_round (time_second env - time_first env) 2))],
          Inr [(''text_extracted'', PyStr (join [space] (map (\<lambda>d. strip (fst (snd d))) results'))),
               (''individual_texts'', PyStrList (map (\<lambda>d. strip (fst (snd d))) results')),
               (''confidence_scores'', PyFloatList (map (\<lambda>d. py_round (snd (snd d)) 3) results')),
               (''processing_time'', PyFloat (py_round (time_second env - time_first env) 2)),
               (''total_detections'', PyInt (int (length results')))])"
  then have "results' = results" using assms(3,4) by simp
  then show ?thesis unfolding process_image_ocr_def b by simp
qed (use assms in simp_all)


lemma try_body_no_json: "json_records (fst (try_body env image_path languages)) = []"
  by (rule try_body_cases[of env image_path languages])
    (simp_all add: json_records_simps json_records_append json_records_text_lines
      json_records_all_text_lines)


lemma try_body_Inr:
  assumes "try_body env image_path languages = (out, Inr d)"
  obtains reader results where
      "print_error env (Print (Starting image_path)) = None"
      "print_error env (Print (Initializing (split languages comma))) = None"
      "easyocr_Reader env (split languages comma) False = Inr reader"
      "reader_readtext env reader image_path = Inr results"
      "\<forall>ev \<in> set (text_lines 0 results). print_error env ev = None"
      "d = [(''text_extracted'', PyStr (join [space] (map (\<lambda>d. strip (fst (snd d))) results))),
            (''individual_texts'', PyStrList (map (\<lambda>d. strip (fst (snd d))) results)),
            (''confidence_scores'', PyFloatList (map (\<lambda>d. py_round (snd (snd d)) 3) results)),
            (''processing_time'', PyFloat (py_round (time_second env - time_first env) 2)),
            (''total_detections'', PyInt (int (length results)))]"
proof (rule try_body_cases[of env image_path languages])
  fix reader results
  assume a: "print_error env (Print (Starting image_path)) = None"
      "print_error env (Print (Initializing (split languages comma))) = None"
      "easyocr_Reader env (split languages comma) False = Inr reader"
      "reader_readtext env reader image_path = Inr results"
      "\<forall>ev \<in> set (text_lines 0 results). print_error env ev = None"
    and b: "try_body env image_path languages =
         ([Print (Starting image_path), Print (Initializing (split languages comma)),
           Call_Reader (split languages comma) False, Print Reader_initialized,
           Print Processing_image, Call_readtext image_path,
           Print (Completed (length results))] @ text_lines 0 results @
          [Print (Total_time (py_round (time_second env - time_first env) 2))],
          Inr [(''text_extracted'', PyStr (join [space] (map (\<lambda>d. strip (fst (snd d))) results))),
               (''individual_texts'', PyStrList (map (\<lambda>d. strip (fst (snd d))) results)),
               (''confidence_scores'', PyFloatList (map (\<lambda>d. py_round (snd (snd d)) 3) results)),
               (''processing_time'', PyFloat (py_round (time_second env - time_first env) 2)),
               (''total_detections'', PyInt (int (length results)))])"
  have "d = [(''text_extracted'', PyStr (join [space] (map (\<lambda>d. strip (fst (snd d))) results))),
            (''individual_texts'', PyStrList (map (\<lambda>d. strip (fst (snd d))) results)),
            (''confidence_scores'', PyFloatList (map (\<lambda>d. py_round (snd (snd d)) 3) results)),
            (''processing_time'', PyFloat (py_round (time_second env - time_first env) 2)),
            (''total_detections'', PyInt (int (length results)))]"
    using assms unfolding b by simp
  with a show ?thesis by (rule that)
qed (use assms in simp_all)

lemma process_image_ocr_cases:
  fixes env :: "('r, 'b) env"
  obtains
    (success) out reader results where
      "print_error env (Print (Starting image_path)) = None"
      "print_error env (Print (Initializing (split languages comma))) = None"
      "easyocr_Reader env (split languages comma) False = Inr reader"
      "reader_readtext env reader image_path = Inr results"
      "\<forall>ev \<in> set (text_lines 0 results). print_error env ev = None"
      "json_records out = []"
      "process_image_ocr env image_path languages =
         (out,
          Inr [(''text_extracted'', PyStr (join [space] (map (\<lambda>d. strip (fst (snd d))) results))),
               (''individual_texts'', PyStrList (map (\<lambda>d. strip (fst (snd d))) results)),
               (''confidence_scores'', PyFloatList (map (\<lambda>d. py_round (snd (snd d)) 3) results)),
               (''processing_time'', PyFloat (py_round (time_second env - time_first env) 2)),
               (''total_detections'', PyInt (int (length results)))])"
  | (failure) out e where
      "try_body env image_path languages = (out, Inl (Exception e))"
      "print_error env (Print (Error_line e)) = None"
      "json_records out = []"
      "process_image_ocr env image_path languages =
         (out @ [Print (Error_line e)],
          Inr [(''error'', PyStr e), (''text_extracted'', PyStr []),
               (''confidence_scores'', PyFloatList []), (''processing_time'', PyInt 0)])"
  | (handler_raises) out e e' where
      "try_body env image_path languages = (out, Inl (Exception e))"
      "print_error env (Print (Error_line e)) = Some e'"
      "json_records out = []"
      "process_image_ocr env image_path languages = (out, Inl (Exception e'))"
  | (exits) out status where
      "try_body env image_path languages = (out, Inl (SystemExit status))"
      "json_records out = []"
      "process_image_ocr env image_path languages = (out, Inl (SystemExit status))"
proof -
  obtain out res where b: "try_body env image_path languages = (out, res)"
    by (cases "try_body env image_path languages")
  have j: "json_records out = []"
    using try_body_no_json[of env image_path languages] unfolding b by simp
  show ?thesis
  proof (cases res)
    case (Inr d)
    from b[unfolded Inr] show ?thesis
    proof (rule try_body_Inr)
      fix reader results
      assume a: "print_error env (Print (Starting image_path)) = None"
        "print_error env (Print (Initializing (split languages comma))) = None"
        "easyocr_Reader env (split languages comma) False = Inr reader"
        "reader_readtext env reader image_path = Inr results"
        "\<forall>ev \<in> set (text_lines 0 results). print_error env ev = None"
        and d: "d = [(''text_extracted'', PyStr (join [space] (map (\<lambda>d. strip (fst (snd d))) results))),
            (''individual_texts'', PyStrList (map (\<lambda>d. strip (fst (snd d))) results)),
            (''confidence_scores'', PyFloatList (map (\<lambda>d. py_round (snd (snd d)) 3) results)),
            (''processing_time'', PyFloat (py_round (time_second env - time_first env) 2)),
            (''total_detections'', PyInt (int (length results)))]"
      have "process_image_ocr env image_path languages = (out, Inr d)"
        unfolding process_image_ocr_def b Inr by simp
      with a j show ?thesis unfolding d by (rule success)
    qed
  next
    case (Inl x)
    show ?thesis
    proof (cases x)
      case (Exception e)
      have p: "process_image_ocr env image_path languages = except_Exception env out e"
        unfolding process_image_ocr_def b Inl Exception by simp
      show ?thesis
      proof (rule except_Exception_cases[of env e out])
        assume "print_error env (Print (Error_line e)) = None"
          and "except_Exception env out e =
             (out @ [Print (Error_line e)],
              Inr [(''error'', PyStr e), (''text_extracted'', PyStr []),
                   (''confidence_scores'', PyFloatList []), (''processing_time'', PyInt 0)])"
        with b[unfolded Inl Exception] j p show ?thesis by (intro failure) simp_all
      next
        fix e'
        assume "print_error env (Print (Error_line e)) = Some e'"
          and "except_Exception env out e = (out, Inl (Exception e'))"
        with b[unfolded Inl Exception] j p show ?thesis by (intro handler_raises) simp_all
      qed
    next
      case (SystemExit status)
      have "process_image_ocr env image_path languages = (out, Inl (SystemExit status))"
        unfolding process_image_ocr_def b Inl SystemExit by simp
      with b[unfolded Inl SystemExit] j show ?thesis by (intro exits) simp_all
    qed
  qed
qed

lemma process_image_ocr_no_json:
  "json_records (fst (process_image_ocr env image_path languages)) = []"
  by (rule process_image_ocr_cases[of env image_path languages])
    (simp_all add: json_records_simps json_records_append)







section \<open>What \<open>main\<close> prints\<close>


lemma length_positional: "length (positional argv) = length argv - 1"
  by (simp add: positional_def)

lemma positional_nth:
  assumes "\<not> length argv < 3"
  shows "positional argv ! 0 = argv ! 1" and "positional argv ! 1 = argv ! 2"
proof -
  have "1 < length argv" "2 < length argv" using assms by simp_all
  then show "positional argv ! 0 = argv ! 1" and "positional argv ! 1 = argv ! 2"
    by (simp_all add: positional_def nth_tl numeral_2_eq_2)
qed

lemma positional_short: "length (positional argv) < 2 \<longleftrightarrow> length argv < 3"
  unfolding length_positional by arith

lemma main_usage:
  "length argv < 3 \<Longrightarrow> main env argv = ([Print_json True usage_error], 1)"
  by (simp add: main_def print_error_constant)

lemma main_runs:
  assumes "\<not> length argv < 3"
  shows "process_image_ocr env (argv ! 1) (argv ! 2) = (out, Inl (Exception e)) \<Longrightarrow>
     main env argv = (out, 1)"
    and "process_image_ocr env (argv ! 1) (argv ! 2) = (out, Inl (SystemExit status)) \<Longrightarrow>
     main env argv = (out, status)"
    and "process_image_ocr env (argv ! 1) (argv ! 2) = (out, Inr d) \<Longrightarrow>
     print_error env (Print_json False d) = Some e \<Longrightarrow> main env argv = (out, 1)"
    and "process_image_ocr env (argv ! 1) (argv ! 2) = (out, Inr d) \<Longrightarrow>
     print_error env (Print_json False d) = None \<Longrightarrow>
     main env argv = (out @ [Print_json False d], 0)"
  using assms by (simp_all add: main_def Let_def)

section \<open>Sample runs\<close>

lemma sample_prints:
  "print_error sample_env ev = None" "print_error blank_image_env ev = None"
  "print_error bad_language_env ev = None" "print_error missing_file_env ev = None"
  "print_error clock_set_back_env ev = None" "print_error engine_exits_env ev = None"
  by (simp_all add: print_error_def sample_env_def blank_image_env_def bad_language_env_def
      missing_file_env_def clock_set_back_env_def engine_exits_env_def)

lemma sample_text_lines:
  "text_lines 0 two_regions =
     [Print (Text_line 1 [32, 72, 233, 32, 32] (98765 / 100000)),
      Print (Text_line 2 (ascii ''you'') (1 / 16))]"
  by (simp add: two_regions_def)

lemma sample_record:
  "snd (process_image_ocr sample_env (ascii ''a.png'') (ascii ''en,fr'')) =
     Inr [(''text_extracted'', PyStr [72, 233, 32, 121, 111, 117]),
          (''individual_texts'', PyStrList [[72, 233], [121, 111, 117]]),
          (''confidence_scores'', PyFloatList [988 / 1000, 62 / 1000]),
          (''processing_time'', PyFloat (5 / 2)),
          (''total_detections'', PyInt 2)]"
proof -
  have r: "easyocr_Reader sample_env (split (ascii ''en,fr'') comma) False = Inr ()"
    by (simp add: sample_env_def)
  have t: "reader_readtext sample_env () (ascii ''a.png'') = Inr two_regions"
    by (simp add: sample_env_def)
  have texts: "map (\<lambda>d. strip (fst (snd d))) two_regions = [[72, 233], [121, 111, 117]]"
    by (simp add: two_regions_def strip_def lstrip_def rstrip_def isspace_def ascii_def)
  have scores: "map (\<lambda>d. py_round (snd (snd d)) 3) two_regions = [988 / 1000, 62 / 1000]"
    by (simp add: two_regions_def py_round_def round_half_even_def Let_def)
  have elapsed: "py_round (time_second sample_env - time_first sample_env) 2 = 5 / 2"
    by (simp add: sample_env_def py_round_def round_half_even_def Let_def)
  have n: "length two_regions = 2" by (simp add: two_regions_def)
  show ?thesis
    unfolding process_image_ocr_returns[OF sample_prints(1) sample_prints(1) r t,
        simplified sample_prints, simplified] texts scores elapsed n
    by (simp add: space_def)
qed



section \<open>The claims\<close>

text \<open>
  C1. Whenever the engine is constructed and returns a sequence of detections and
  no exception is raised (none of the prints of the \<open>try\<close> body that carry a string
  raises), \<open>process_image_ocr\<close> returns the success record, the lengths of
  \<open>individual_texts\<close> and of \<open>confidence_scores\<close> both equal
  \<open>total_detections\<close>, and \<open>text_extracted\<close> is \<open>individual_texts\<close> joined with a
  single space.
\<close>

theorem success_record_invariant:
  assumes "easyocr_Reader env (split languages comma) False = Inr reader"
    and "reader_readtext env reader image_path = Inr results"
    and "print_error env (Print (Starting image_path)) = None"
    and "print_error env (Print (Initializing (split languages comma))) = None"
    and "\<forall>ev \<in> set (text_lines 0 results). print_error env ev = None"
  shows "\<exists>text_extracted individual_texts confidence_scores processing_time total_detections.
     snd (process_image_ocr env image_path languages) =
       Inr [(''text_extracted'', PyStr text_extracted),
            (''individual_texts'', PyStrList individual_texts),
            (''confidence_scores'', PyFloatList confidence_scores),
            (''processing_time'', PyFloat processing_time),
            (''total_detections'', PyInt total_detections)] \<and>
     int (length individual_texts) = total_detections \<and>
     int (length confidence_scores) = total_detections \<and>
     text_extracted = join [space] individual_texts"
  unfolding process_image_ocr_returns[OF assms(3,4,1,2,5)] by simp

theorem success_record_invariant_witness:
  "easyocr_Reader sample_env (split (ascii ''en,fr'') comma) False = Inr () \<and>
   reader_readtext sample_env () (ascii ''a.png'') = Inr two_regions \<and>
   print_error sample_env (Print (Starting (ascii ''a.png''))) = None \<and>
   print_error sample_env (Print (Initializing (split (ascii ''en,fr'') comma))) = None \<and>
   text_lines 0 two_regions =
     [Print (Text_line 1 [32, 72, 233, 32, 32] (98765 / 100000)),
      Print (Text_line 2 (ascii ''you'') (1 / 16))] \<and>
   print_error sample_env (Print (Text_line 1 [32, 72, 233, 32, 32] (98765 / 100000))) = None \<and>
   print_error sample_env (Print (Text_line 2 (ascii ''you'') (1 / 16))) = None \<and>
   (\<exists>text_extracted individual_texts confidence_scores processing_time total_detections.
     snd (process_image_ocr sample_env (ascii ''a.png'') (ascii ''en,fr'')) =
       Inr [(''text_extracted'', PyStr text_extracted),
            (''individual_texts'', PyStrList individual_texts),
            (''confidence_scores'', PyFloatList confidence_scores),
            (''processing_time'', PyFloat processing_time),
            (''total_detections'', PyInt total_detections)] \<and>
     int (length individual_texts) = total_detections \<and>
     int (length confidence_scores) = total_detections \<and>
     text_extracted = join [space] individual_texts)"
proof -
  have r: "easyocr_Reader sample_env (split (ascii ''en,fr'') comma) False = Inr ()"
    by (simp add: sample_env_def)
  have t: "reader_readtext sample_env () (ascii ''a.png'') = Inr two_regions"
    by (simp add: sample_env_def)
  have l: "\<forall>ev \<in> set (text_lines 0 two_regions). print_error sample_env ev = None"
    by (simp add: sample_prints)
  show ?thesis
    using r t sample_text_lines sample_prints(1)
      success_record_invariant[OF r t sample_prints(1) sample_prints(1) l]
    by blast
qed

text \<open>
  C3. With fewer than two positional arguments \<open>main\<close> prints one JSON object,
  the usage error, which has the key \<open>error\<close> and not the key
  \<open>text_extracted\<close>; it exits with status 1 and makes no call of the engine. The
  text printed is spelled out.
\<close>

theorem missing_arguments_usage_error:
  assumes "length (positional argv) < 2"
  shows "main env argv = ([Print_json True usage_error], 1) \<and>
     has_key usage_error ''error'' \<and> \<not> has_key usage_error ''text_extracted'' \<and>
     filter is_engine_call (fst (main env argv)) = [] \<and>
     dumps float_repr True usage_error =
       [123, 34] @ ascii ''error'' @ [34, 58, 32, 34] @
       ascii ''Missing arguments. Usage: python ocr_processor.py <image_path> <languages>'' @
       [34, 125]"
proof -
  have "length argv < 3" using assms by (simp add: positional_short)
  then have m: "main env argv = ([Print_json True usage_error], 1)" by (rule main_usage)
  have k: "has_key usage_error ''error'' \<and> \<not> has_key usage_error ''text_extracted''"
    by (simp add: has_key_def usage_error_def)
  have d: "dumps float_repr True usage_error =
       [123, 34] @ ascii ''error'' @ [34, 58, 32, 34] @
       ascii ''Missing arguments. Usage: python ocr_processor.py <image_path> <languages>'' @
       [34, 125]"
    by (simp add: dumps_def dumps_item_def dumps_str_def usage_error_def ascii_def escape_char_def)
  show ?thesis using m k d by simp
qed

theorem missing_arguments_usage_error_witness:
  "length (positional [ascii ''ocr_processor.py'', ascii ''a.png'']) < 2 \<and>
   main sample_env [ascii ''ocr_processor.py'', ascii ''a.png''] =
     ([Print_json True usage_error], 1) \<and>
   length (positional [ascii ''ocr_processor.py'']) < 2 \<and>
   main sample_env [ascii ''ocr_processor.py''] = ([Print_json True usage_error], 1)"
proof -
  have a: "length (positional [ascii ''ocr_processor.py'', ascii ''a.png'']) < 2"
    "length (positional [ascii ''ocr_processor.py'']) < 2"
    by (simp_all add: positional_def)
  show ?thesis
    using a missing_arguments_usage_error[OF a(1), of sample_env]
      missing_arguments_usage_error[OF a(2), of sample_env]
    by blast
qed

text \<open>
  C4. For every sequence of detections the engine returns, the success record that
  \<open>process_image_ocr\<close> returns (a record without the key \<open>error\<close>) has at position
  \<open>i\<close> of \<open>individual_texts\<close> the stripped text of detection \<open>i\<close> and at position
  \<open>i\<close> of \<open>confidence_scores\<close> its confidence rounded to 3 decimals, both lists
  in the order the engine returned, and \<open>text_extracted\<close> is the single-space join
  of the stripped texts.
\<close>

theorem success_record_contents:
  assumes "easyocr_Reader env (split languages comma) False = Inr reader"
    and "reader_readtext env reader image_path = Inr results"
    and "snd (process_image_ocr env image_path languages) = Inr d"
    and "\<not> has_key d ''error''"
  shows "\<exists>individual_texts confidence_scores processing_time.
     d = [(''text_extracted'', PyStr (join [space] individual_texts)),
          (''individual_texts'', PyStrList individual_texts),
          (''confidence_scores'', PyFloatList confidence_scores),
          (''processing_time'', PyFloat processing_time),
          (''total_detections'', PyInt (int (length results)))] \<and>
     length individual_texts = length results \<and>
     length confidence_scores = length results \<and>
     (\<forall>i<length results.
        individual_texts ! i = strip (fst (snd (results ! i))) \<and>
        confidence_scores ! i = py_round (snd (snd (results ! i))) 3)"
proof (rule process_image_ocr_cases[of env image_path languages])
  fix out reader' results'
  assume "easyocr_Reader env (split languages comma) False = Inr reader'"
    and "reader_readtext env reader' image_path = Inr results'"
    and p: "process_image_ocr env image_path languages =
         (out,
          Inr [(''text_extracted'', PyStr (join [space] (map (\<lambda>d. strip (fst (snd d))) results'))),
               (''individual_texts'', PyStrList (map (\<lambda>d. strip (fst (snd d))) results')),
               (''confidence_scores'', PyFloatList (map (\<lambda>d. py_round (snd (snd d)) 3) results')),
               (''processing_time'', PyFloat (py_round (time_second env - time_first env) 2)),
               (''total_detections'', PyInt (int (length results')))])"
  then have "results' = results" using assms(1,2) by simp
  then show ?thesis using assms(3) unfolding p by auto
next
  fix out e
  assume "process_image_ocr env image_path languages =
         (out @ [Print (Error_line e)],
          Inr [(''error'', PyStr e), (''text_extracted'', PyStr []),
               (''confidence_scores'', PyFloatList []), (''processing_time'', PyInt 0)])"
  then have "has_key d ''error''" using assms(3) by (auto simp: has_key_def)
  then show ?thesis using assms(4) by simp
qed (use assms(3) in simp_all)

theorem success_record_contents_witness:
  "easyocr_Reader sample_env (split (ascii ''en,fr'') comma) False = Inr () \<and>
   reader_readtext sample_env () (ascii ''a.png'') = Inr two_regions \<and>
   snd (process_image_ocr sample_env (ascii ''a.png'') (ascii ''en,fr'')) =
     Inr [(''text_extracted'', PyStr [72, 233, 32, 121, 111, 117]),
          (''individual_texts'', PyStrList [[72, 233], [121, 111, 117]]),
          (''confidence_scores'', PyFloatList [988 / 1000, 62 / 1000]),
          (''processing_time'', PyFloat (5 / 2)),
          (''total_detections'', PyInt 2)] \<and>
   \<not> has_key [(''text_extracted'', PyStr [72, 233, 32, 121, 111, 117]),
          (''individual_texts'', PyStrList [[72, 233], [121, 111, 117]]),
          (''confidence_scores'', PyFloatList [988 / 1000, 62 / 1000]),
          (''processing_time'', PyFloat (5 / 2)),
          (''total_detections'', PyInt 2)] ''error'' \<and>
   length two_regions = 2 \<and>
   [72, 233] = strip (fst (snd (two_regions ! 0))) \<and>
   988 / 1000 = py_round (snd (snd (two_regions ! 0))) 3 \<and>
   [121, 111, 117] = strip (fst (snd (two_regions ! 1))) \<and>
   62 / 1000 = py_round (snd (snd (two_regions ! 1))) 3"
proof -
  have r: "easyocr_Reader sample_env (split (ascii ''en,fr'') comma) False = Inr ()"
    by (simp add: sample_env_def)
  have t: "reader_readtext sample_env () (ascii ''a.png'') = Inr two_regions"
    by (simp add: sample_env_def)
  have k: "\<not> has_key [(''text_extracted'', PyStr [72, 233, 32, 121, 111, 117]),
          (''individual_texts'', PyStrList [[72, 233], [121, 111, 117]]),
          (''confidence_scores'', PyFloatList [988 / 1000, 62 / 1000]),
          (''processing_time'', PyFloat (5 / 2)),
          (''total_detections'', PyInt 2)] ''error''"
    by (simp add: has_key_def)
  have n: "length two_regions = 2" by (simp add: two_regions_def)
  obtain ts cs p where d: "[(''text_extracted'', PyStr [72, 233, 32, 121, 111, 117]),
          (''individual_texts'', PyStrList [[72, 233], [121, 111, 117]]),
          (''confidence_scores'', PyFloatList [988 / 1000, 62 / 1000]),
          (''processing_time'', PyFloat (5 / 2)),
          (''total_detections'', PyInt 2)] =
       [(''text_extracted'', PyStr (join [space] ts)), (''individual_texts'', PyStrList ts),
        (''confidence_scores'', PyFloatList cs), (''processing_time'', PyFloat p),
        (''total_detections'', PyInt (int (length two_regions)))]"
    and i: "\<forall>i<length two_regions. ts ! i = strip (fst (snd (two_regions ! i))) \<and>
        cs ! i = py_round (snd (snd (two_regions ! i))) 3"
    using success_record_contents[OF r t sample_record k] by blast
  from d have ts: "ts = [[72, 233], [121, 111, 117]]" and cs: "cs = [988 / 1000, 62 / 1000]"
    by simp_all
  have "ts ! 0 = strip (fst (snd (two_regions ! 0)))" "cs ! 0 = py_round (snd (snd (two_regions ! 0))) 3"
    "ts ! 1 = strip (fst (snd (two_regions ! 1)))" "cs ! 1 = py_round (snd (snd (two_regions ! 1))) 3"
    using i n by simp_all
  then show ?thesis
    using r t sample_record k n unfolding ts cs by simp
qed

text \<open>
  C5, as stated, fails: \<open>processing_time\<close> is the rounded difference of two
  readings of \<open>time.time()\<close>, the wall clock, and the second reading is below the
  first when the system clock is set back while the engine runs. With readings 10
  and 5 and an engine that finds nothing, the success record holds \<open>-5\<close>.
\<close>

theorem processing_time_clock_set_back_counterexample:
  "snd (process_image_ocr clock_set_back_env (ascii ''a.png'') (ascii ''en'')) =
     Inr [(''text_extracted'', PyStr []), (''individual_texts'', PyStrList []),
          (''confidence_scores'', PyFloatList []), (''processing_time'', PyFloat (- 5)),
          (''total_detections'', PyInt 0)] \<and>
   processing_time_of
     [(''text_extracted'', PyStr []), (''individual_texts'', PyStrList []),
      (''confidence_scores'', PyFloatList []), (''processing_time'', PyFloat (- 5)),
      (''total_detections'', PyInt 0)] = Some (- 5) \<and>
   \<not> (0::real) \<le> - 5"
proof -
  have r: "easyocr_Reader clock_set_back_env (split (ascii ''en'') comma) False = Inr ()"
    by (simp add: clock_set_back_env_def)
  have t: "reader_readtext clock_set_back_env () (ascii ''a.png'') = Inr []"
    by (simp add: clock_set_back_env_def)
  have e: "py_round (time_second clock_set_back_env - time_first clock_set_back_env) 2 = - 5"
    by (simp add: clock_set_back_env_def py_round_def round_half_even_def Let_def)
  have l: "\<forall>ev \<in> set (text_lines 0 ([] :: unit detection list)).
      print_error clock_set_back_env ev = None"
    by simp
  show ?thesis
    unfolding process_image_ocr_returns[OF sample_prints(5) sample_prints(5) r t l] e
    by (simp add: processing_time_of_def)
qed

text \<open>
  C5, amended. In every record \<open>process_image_ocr\<close> returns (success or failure),
  \<open>processing_time\<close> is a number with at most 2 decimals (an integer divided by
  100); it is non-negative whenever the second clock reading is not below the first.
\<close>

theorem processing_time_rounded:
  assumes "snd (process_image_ocr env image_path languages) = Inr d"
  shows "\<exists>x k. processing_time_of d = Some x \<and> x = of_int k / 100 \<and>
     (time_first env \<le> time_second env \<longrightarrow> 0 \<le> x)"
proof (rule process_image_ocr_cases[of env image_path languages])
  fix out reader results
  assume p: "process_image_ocr env image_path languages =
         (out,
          Inr [(''text_extracted'', PyStr (join [space] (map (\<lambda>d. strip (fst (snd d))) results))),
               (''individual_texts'', PyStrList (map (\<lambda>d. strip (fst (snd d))) results)),
               (''confidence_scores'', PyFloatList (map (\<lambda>d. py_round (snd (snd d)) 3) results)),
               (''processing_time'', PyFloat (py_round (time_second env - time_first env) 2)),
               (''total_detections'', PyInt (int (length results)))])"
  define x where "x = py_round (time_second env - time_first env) 2"
  have t: "processing_time_of d = Some x"
    using assms unfolding p x_def by (auto simp: processing_time_of_def)
  obtain k :: int where k: "x = of_int k / 10 ^ 2"
    unfolding x_def using py_round_decimal by blast
  have n: "time_first env \<le> time_second env \<longrightarrow> 0 \<le> x"
    unfolding x_def using py_round_nonneg[of "time_second env - time_first env" 2] by simp
  from k have "x = of_int k / 100" by simp
  with t n show ?thesis by blast
next
  fix out e
  assume p: "process_image_ocr env image_path languages =
         (out @ [Print (Error_line e)],
          Inr [(''error'', PyStr e), (''text_extracted'', PyStr []),
               (''confidence_scores'', PyFloatList []), (''processing_time'', PyInt 0)])"
  have "processing_time_of d = Some 0"
    using assms unfolding p by (auto simp: processing_time_of_def)
  moreover have "(0::real) = of_int 0 / 100" by simp
  ultimately show ?thesis by blast
qed (use assms in simp_all)

theorem processing_time_rounded_witness:
  "snd (process_image_ocr sample_env (ascii ''a.png'') (ascii ''en,fr'')) =
     Inr [(''text_extracted'', PyStr [72, 233, 32, 121, 111, 117]),
          (''individual_texts'', PyStrList [[72, 233], [121, 111, 117]]),
          (''confidence_scores'', PyFloatList [988 / 1000, 62 / 1000]),
          (''processing_time'', PyFloat (5 / 2)),
          (''total_detections'', PyInt 2)] \<and>
   time_first sample_env \<le> time_second sample_env \<and>
   processing_time_of
     [(''text_extracted'', PyStr [72, 233, 32, 121, 111, 117]),
      (''individual_texts'', PyStrList [[72, 233], [121, 111, 117]]),
      (''confidence_scores'', PyFloatList [988 / 1000, 62 / 1000]),
      (''processing_time'', PyFloat (5 / 2)),
      (''total_detections'', PyInt 2)] = Some (of_int 250 / 100)"
proof -
  have c: "time_first sample_env \<le> time_second sample_env" by (simp add: sample_env_def)
  obtain x k where x: "processing_time_of
     [(''text_extracted'', PyStr [72, 233, 32, 121, 111, 117]),
      (''individual_texts'', PyStrList [[72, 233], [121, 111, 117]]),
      (''confidence_scores'', PyFloatList [988 / 1000, 62 / 1000]),
      (''processing_time'', PyFloat (5 / 2)),
      (''total_detections'', PyInt 2)] = Some x" and "x = of_int k / 100"
    using processing_time_rounded[OF sample_record] by blast
  then have "x = 5 / 2" by (simp add: processing_time_of_def)
  then show ?thesis using c x sample_record by simp
qed

text \<open>
  C6. If every confidence the engine reports lies in \<open>[0, 1]\<close>, then in the record
  \<open>process_image_ocr\<close> returns every value of \<open>confidence_scores\<close> has at most 3
  decimals (an integer divided by 1000) and lies in \<open>[0, 1]\<close>.
\<close>

theorem confidence_scores_rounded_in_unit_interval:
  assumes "easyocr_Reader env (split languages comma) False = Inr reader"
    and "reader_readtext env reader image_path = Inr results"
    and "\<forall>d \<in> set results. 0 \<le> snd (snd d) \<and> snd (snd d) \<le> 1"
    and "snd (process_image_ocr env image_path languages) = Inr d"
  shows "\<exists>confidence_scores.
     map_of d ''confidence_scores'' = Some (PyFloatList confidence_scores) \<and>
     (\<forall>c \<in> set confidence_scores. (\<exists>k::int. c = of_int k / 1000) \<and> 0 \<le> c \<and> c \<le> 1)"
proof (rule process_image_ocr_cases[of env image_path languages])
  fix out reader' results'
  assume "easyocr_Reader env (split languages comma) False = Inr reader'"
    and "reader_readtext env reader' image_path = Inr results'"
    and p: "process_image_ocr env image_path languages =
         (out,
          Inr [(''text_extracted'', PyStr (join [space] (map (\<lambda>d. strip (fst (snd d))) results'))),
               (''individual_texts'', PyStrList (map (\<lambda>d. strip (fst (snd d))) results')),
               (''confidence_scores'', PyFloatList (map (\<lambda>d. py_round (snd (snd d)) 3) results')),
               (''processing_time'', PyFloat (py_round (time_second env - time_first env) 2)),
               (''total_detections'', PyInt (int (length results')))])"
  then have e: "results' = results" using assms(1,2) by simp
  have "(\<exists>k::int. py_round (snd (snd x)) 3 = of_int k / 1000) \<and>
      0 \<le> py_round (snd (snd x)) 3 \<and> py_round (snd (snd x)) 3 \<le> 1"
    if "x \<in> set results" for x
  proof -
    have "0 \<le> snd (snd x)" "snd (snd x) \<le> 1" using assms(3) that by auto
    then show ?thesis
      using py_round_decimal[of "snd (snd x)" 3] py_round_nonneg[of "snd (snd x)" 3]
        py_round_le_one[of "snd (snd x)" 3] by simp
  qed
  then show ?thesis using assms(4) unfolding p e by auto
next
  fix out e
  assume p: "process_image_ocr env image_path languages =
         (out @ [Print (Error_line e)],
          Inr [(''error'', PyStr e), (''text_extracted'', PyStr []),
               (''confidence_scores'', PyFloatList []), (''processing_time'', PyInt 0)])"
  show ?thesis using assms(4) unfolding p by auto
qed (use assms(4) in simp_all)

theorem confidence_scores_rounded_in_unit_interval_witness:
  "easyocr_Reader sample_env (split (ascii ''en,fr'') comma) False = Inr () \<and>
   reader_readtext sample_env () (ascii ''a.png'') = Inr two_regions \<and>
   map (\<lambda>d. snd (snd d)) two_regions = [98765 / 100000, 1 / 16] \<and>
   (0::real) \<le> 98765 / 100000 \<and> (98765::real) / 100000 \<le> 1 \<and>
   (0::real) \<le> 1 / 16 \<and> (1::real) / 16 \<le> 1 \<and>
   snd (process_image_ocr sample_env (ascii ''a.png'') (ascii ''en,fr'')) =
     Inr [(''text_extracted'', PyStr [72, 233, 32, 121, 111, 117]),
          (''individual_texts'', PyStrList [[72, 233], [121, 111, 117]]),
          (''confidence_scores'', PyFloatList [988 / 1000, 62 / 1000]),
          (''processing_time'', PyFloat (5 / 2)),
          (''total_detections'', PyInt 2)] \<and>
   map_of [(''text_extracted'', PyStr [72, 233, 32, 121, 111, 117]),
          (''individual_texts'', PyStrList [[72, 233], [121, 111, 117]]),
          (''confidence_scores'', PyFloatList [988 / 1000, 62 / 1000]),
          (''processing_time'', PyFloat (5 / 2)),
          (''total_detections'', PyInt 2)]
     ''confidence_scores'' = Some (PyFloatList [of_int 988 / 1000, of_int 62 / 1000]) \<and>
   (0::real) \<le> of_int 988 / 1000 \<and> (of_int 988 :: real) / 1000 \<le> 1 \<and>
   (0::real) \<le> of_int 62 / 1000 \<and> (of_int 62 :: real) / 1000 \<le> 1"
proof -
  have r: "easyocr_Reader sample_env (split (ascii ''en,fr'') comma) False = Inr ()"
    by (simp add: sample_env_def)
  have t: "reader_readtext sample_env () (ascii ''a.png'') = Inr two_regions"
    by (simp add: sample_env_def)
  have u: "\<forall>d \<in> set two_regions. 0 \<le> snd (snd d) \<and> snd (snd d) \<le> 1"
    by (simp add: two_regions_def)
  obtain cs where c: "map_of [(''text_extracted'', PyStr [72, 233, 32, 121, 111, 117]),
          (''individual_texts'', PyStrList [[72, 233], [121, 111, 117]]),
          (''confidence_scores'', PyFloatList [988 / 1000, 62 / 1000]),
          (''processing_time'', PyFloat (5 / 2)),
          (''total_detections'', PyInt 2)] ''confidence_scores'' = Some (PyFloatList cs)"
    and b: "\<forall>c \<in> set cs. (\<exists>k::int. c = of_int k / 1000) \<and> 0 \<le> c \<and> c \<le> 1"
    using confidence_scores_rounded_in_unit_interval[OF r t u sample_record] by blast
  have "cs = [988 / 1000, 62 / 1000]" using c by simp
  then show ?thesis
    using r t c b sample_record by (simp add: two_regions_def)
qed

text \<open>
  C8. When the engine is constructed and returns the empty sequence and no
  exception is raised (the two prints that carry the image path and the languages
  do not raise), the record \<open>main\<close> prints has \<open>total_detections\<close> 0,
  \<open>text_extracted\<close> the empty string and \<open>individual_texts\<close> the empty list, and
  \<open>main\<close> exits with status 0.
\<close>

theorem no_detections_record:
  assumes "2 \<le> length (positional argv)"
    and "easyocr_Reader env (split (positional argv ! 1) comma) False = Inr reader"
    and "reader_readtext env reader (positional argv ! 0) = Inr []"
    and "print_error env (Print (Starting (positional argv ! 0))) = None"
    and "print_error env (Print (Initializing (split (positional argv ! 1) comma))) = None"
  shows "\<exists>out processing_time.
     main env argv =
       (out @ [Print_json False
          [(''text_extracted'', PyStr []), (''individual_texts'', PyStrList []),
           (''confidence_scores'', PyFloatList []), (''processing_time'', PyFloat processing_time),
           (''total_detections'', PyInt 0)]], 0) \<and>
     json_records out = []"
proof -
  have l: "\<not> length argv < 3" using assms(1) positional_short[of argv] by simp
  have p: "positional argv ! 0 = argv ! 1" "positional argv ! 1 = argv ! 2"
    by (rule positional_nth[OF l])+
  have n: "\<forall>ev \<in> set (text_lines 0 ([] :: 'b detection list)). print_error env ev = None"
    by simp
  define out where "out = fst (process_image_ocr env (argv ! 1) (argv ! 2))"
  define t where "t = py_round (time_second env - time_first env) 2"
  have r: "process_image_ocr env (argv ! 1) (argv ! 2) =
      (out, Inr [(''text_extracted'', PyStr []), (''individual_texts'', PyStrList []),
           (''confidence_scores'', PyFloatList []), (''processing_time'', PyFloat t),
           (''total_detections'', PyInt 0)])"
    unfolding out_def t_def
    using process_image_ocr_returns[OF assms(4,5,2,3) n] unfolding p by simp
  have j: "json_records out = []"
    unfolding out_def by (rule process_image_ocr_no_json)
  have "print_error env (Print_json False
      [(''text_extracted'', PyStr []), (''individual_texts'', PyStrList []),
           (''confidence_scores'', PyFloatList []), (''processing_time'', PyFloat t),
           (''total_detections'', PyInt 0)]) = None"
    by (rule print_error_ascii) (simp add: dict_strings_def non_ascii_Nil)
  from main_runs(4)[OF l r this] j show ?thesis by blast
qed

theorem no_detections_record_witness:
  "2 \<le> length (positional sample_argv) \<and>
   easyocr_Reader blank_image_env (split (positional sample_argv ! 1) comma) False = Inr () \<and>
   reader_readtext blank_image_env () (positional sample_argv ! 0) = Inr [] \<and>
   print_error blank_image_env (Print (Starting (positional sample_argv ! 0))) = None \<and>
   print_error blank_image_env
     (Print (Initializing (split (positional sample_argv ! 1) comma))) = None \<and>
   (\<exists>out processing_time.
     main blank_image_env sample_argv =
       (out @ [Print_json False
          [(''text_extracted'', PyStr []), (''individual_texts'', PyStrList []),
           (''confidence_scores'', PyFloatList []), (''processing_time'', PyFloat processing_time),
           (''total_detections'', PyInt 0)]], 0) \<and>
     json_records out = [])"
proof -
  have a: "2 \<le> length (positional sample_argv)"
    by (simp add: sample_argv_def positional_def)
  have r: "easyocr_Reader blank_image_env (split (positional sample_argv ! 1) comma) False = Inr ()"
    by (simp add: blank_image_env_def)
  have t: "reader_readtext blank_image_env () (positional sample_argv ! 0) = Inr []"
    by (simp add: blank_image_env_def)
  show ?thesis
    using a r t sample_prints(2) no_detections_record[OF a r t sample_prints(2) sample_prints(2)]
    by blast
qed

text \<open>
  C9. Two argument vectors with at least two positional arguments each that agree
  on the first two give the same run of \<open>main\<close> in the same environment: the call
  of \<open>process_image_ocr\<close> on those two arguments, followed, when it returns a
  record whose \<open>print\<close> does not raise, by that record and status 0.
\<close>

theorem extra_arguments_ignored:
  assumes "2 \<le> length (positional argv)" and "2 \<le> length (positional argv')"
    and "take 2 (positional argv) = take 2 (positional argv')"
  shows "main env argv = main env argv' \<and>
     (\<exists>emitted status.
        main env argv =
          (fst (process_image_ocr env (positional argv ! 0) (positional argv ! 1)) @ emitted,
           status) \<and>
        (\<forall>d. snd (process_image_ocr env (positional argv ! 0) (positional argv ! 1)) = Inr d \<and>
             print_error env (Print_json False d) = None \<longrightarrow>
             emitted = [Print_json False d] \<and> status = 0))"
proof -
  have l: "\<not> length argv < 3" "\<not> length argv' < 3"
    using assms(1,2) positional_short[of argv] positional_short[of argv'] by simp_all
  have p: "positional argv ! 0 = argv ! 1" "positional argv ! 1 = argv ! 2"
    by (rule positional_nth[OF l(1)])+
  have p': "positional argv' ! 0 = argv' ! 1" "positional argv' ! 1 = argv' ! 2"
    by (rule positional_nth[OF l(2)])+
  have "take 2 (positional argv) ! 0 = take 2 (positional argv') ! 0"
    "take 2 (positional argv) ! 1 = take 2 (positional argv') ! 1"
    using assms(3) by simp_all
  moreover have "take 2 (positional argv) ! 0 = positional argv ! 0"
    "take 2 (positional argv) ! 1 = positional argv ! 1"
    "take 2 (positional argv') ! 0 = positional argv' ! 0"
    "take 2 (positional argv') ! 1 = positional argv' ! 1"
    by simp_all
  ultimately have e: "argv ! 1 = argv' ! 1" "argv ! 2 = argv' ! 2"
    unfolding p p' by simp_all
  have same: "main env argv = main env argv'"
    using l e by (simp add: main_def)
  obtain out res where r: "process_image_ocr env (argv ! 1) (argv ! 2) = (out, res)"
    by (cases "process_image_ocr env (argv ! 1) (argv ! 2)")
  have "\<exists>emitted status. main env argv = (out @ emitted, status) \<and>
        (\<forall>d. res = Inr d \<and> print_error env (Print_json False d) = None \<longrightarrow>
             emitted = [Print_json False d] \<and> status = 0)"
  proof (cases res)
    case (Inl x)
    show ?thesis
    proof (cases x)
      case (Exception e)
      have "main env argv = (out @ [], 1)"
        using main_runs(1)[OF l(1) r[unfolded Inl Exception]] by simp
      then show ?thesis using Inl by blast
    next
      case (SystemExit status)
      have "main env argv = (out @ [], status)"
        using main_runs(2)[OF l(1) r[unfolded Inl SystemExit]] by simp
      then show ?thesis using Inl by blast
    qed
  next
    case (Inr d)
    show ?thesis
    proof (cases "print_error env (Print_json False d)")
      case None
      have "main env argv = (out @ [Print_json False d], 0)"
        by (rule main_runs(4)[OF l(1) r[unfolded Inr] None])
      then show ?thesis using Inr by blast
    next
      case (Some e)
      have "main env argv = (out @ [], 1)"
        using main_runs(3)[OF l(1) r[unfolded Inr] Some] by simp
      then show ?thesis using Inr Some by auto
    qed
  qed
  then show ?thesis using same unfolding p r by simp
qed

theorem extra_arguments_ignored_witness:
  "2 \<le> length (positional sample_argv) \<and>
   2 \<le> length (positional (sample_argv @ [ascii ''--fast'', ascii ''x''])) \<and>
   take 2 (positional sample_argv) =
     take 2 (positional (sample_argv @ [ascii ''--fast'', ascii ''x''])) \<and>
   main sample_env sample_argv = main sample_env (sample_argv @ [ascii ''--fast'', ascii ''x''])"
proof -
  have a: "2 \<le> length (positional sample_argv)"
    by (simp add: sample_argv_def positional_def)
  have b: "2 \<le> length (positional (sample_argv @ [ascii ''--fast'', ascii ''x'']))"
    by (simp add: sample_argv_def positional_def)
  have c: "take 2 (positional sample_argv) =
     take 2 (positional (sample_argv @ [ascii ''--fast'', ascii ''x'']))"
    by (simp add: sample_argv_def positional_def)
  show ?thesis using a b c extra_arguments_ignored[OF a b c, of sample_env] by blast
qed










end
